theory Spec2Isabelle
  imports Complex_Main "HOL-Library.Word" "HOL-Library.FSet"
begin

unbundle bit_operations_syntax

section \<open>The I/O pin wrapper (src/iodrivers/iopin.cpp)\<close>

subsection \<open>Types declared in headers that are not part of the sources\<close>

text \<open>
  Modelled from the spec: the logic level type \<open>IoLevel\<close> of the absent header, with the
  two levels \<open>IoLow\<close> and \<open>IoHigh\<close> that iopin.cpp uses, and the negation \<open>!lev\<close>
  (the spec's \<open>\<not>lev\<close>) that exchanges them.
\<close>

datatype IoLevel = IoLow | IoHigh

fun notLevel :: "IoLevel \<Rightarrow> IoLevel" where
  "notLevel IoLow = IoHigh"
| "notLevel IoHigh = IoLow"

text \<open>
  Modelled from the spec: the default states of a pin, \<open>default_state \<in> {low, high,
  high-impedance, none}\<close>, under the names iopin.cpp compares against.
\<close>

datatype DefaultIoState =
  IO_DEFAULT_NONE | IO_DEFAULT_LOW | IO_DEFAULT_HIGH | IO_DEFAULT_HIGH_IMPEDANCE

text \<open>
  Modelled from the spec: the primitive pin of the absent platform header, "a thin
  abstraction over one hardware line identified by a stable integer ID" with "a
  distinguished null value". \<open>None\<close> is \<open>PrimitiveIoPin::null()\<close>, \<open>Some n\<close> is line \<open>n\<close>.
\<close>

type_synonym PrimitiveIoPin = "nat option"

definition prim_isNull :: "PrimitiveIoPin \<Rightarrow> bool" where
  "prim_isNull pr = (pr = None)"

datatype IoMode = Unconfigured | DigitalOutput | DigitalInput

record LineState =
  mode :: IoMode
  level :: IoLevel

text \<open>A call made on a primitive pin that changes the hardware.\<close>

datatype PrimitiveCall =
  MakeDigitalOutput IoLevel | MakeDigitalInput | DigitalWrite IoLevel

text \<open>
  The hardware as the pin wrapper sees it: the state of every line, and the calls made on
  primitive pins so far, oldest first (calls made on the null pin included).
\<close>

record Hardware =
  lines :: "nat \<Rightarrow> LineState"
  calls :: "(PrimitiveIoPin \<times> PrimitiveCall) list"

text \<open>
  Modelled from the spec: the operations of the primitive pin, \<open>make_digital_output
  (initial_level)\<close>, \<open>make_digital_input\<close>, \<open>digital_write(level)\<close> and \<open>digital_read()\<close>;
  "all operations on null are no-ops", and a read of the null pin "returns a defined idle
  level", which the spec does not name and which is the parameter \<open>idle\<close> here.
\<close>

definition prim_apply :: "PrimitiveCall \<Rightarrow> LineState \<Rightarrow> LineState" where
  "prim_apply c l = (case c of
       MakeDigitalOutput lev \<Rightarrow> \<lparr>mode = DigitalOutput, level = lev\<rparr>
     | MakeDigitalInput \<Rightarrow> l\<lparr>mode := DigitalInput\<rparr>
     | DigitalWrite lev \<Rightarrow> l\<lparr>level := lev\<rparr>)"

definition prim_call :: "PrimitiveIoPin \<Rightarrow> PrimitiveCall \<Rightarrow> Hardware \<Rightarrow> Hardware" where
  "prim_call pr c hw = (case pr of
       None \<Rightarrow> hw\<lparr>calls := calls hw @ [(pr, c)]\<rparr>
     | Some n \<Rightarrow> hw\<lparr>lines := (lines hw)(n := prim_apply c (lines hw n)),
                     calls := calls hw @ [(pr, c)]\<rparr>)"

definition prim_makeDigitalOutput :: "PrimitiveIoPin \<Rightarrow> IoLevel \<Rightarrow> Hardware \<Rightarrow> Hardware" where
  "prim_makeDigitalOutput pr lev hw = prim_call pr (MakeDigitalOutput lev) hw"

definition prim_makeDigitalInput :: "PrimitiveIoPin \<Rightarrow> Hardware \<Rightarrow> Hardware" where
  "prim_makeDigitalInput pr hw = prim_call pr MakeDigitalInput hw"

definition prim_digitalWrite :: "PrimitiveIoPin \<Rightarrow> IoLevel \<Rightarrow> Hardware \<Rightarrow> Hardware" where
  "prim_digitalWrite pr lev hw = prim_call pr (DigitalWrite lev) hw"

definition prim_digitalRead :: "IoLevel \<Rightarrow> PrimitiveIoPin \<Rightarrow> Hardware \<Rightarrow> IoLevel" where
  "prim_digitalRead idle pr hw = (case pr of None \<Rightarrow> idle | Some n \<Rightarrow> level (lines hw n))"

text \<open>
  Modelled from the spec: the inversion flags a pin is constructed with, \<open>INVERT_READS\<close>
  only, \<open>INVERT_WRITES\<close> only, both or none (the absent header's \<open>IoPinInversions\<close>).
\<close>

datatype IoPinInversions =
  NO_INVERSIONS | INVERT_READS | INVERT_WRITES | INVERT_READS_AND_WRITES

subsection \<open>The pin object and its methods\<close>

text \<open>The data members iopin.cpp reads and writes: \<open>_pin\<close>, \<open>_invertReads\<close>,
  \<open>_invertWrites\<close> and \<open>_defaultState\<close>.\<close>

record IoPin =
  pin :: PrimitiveIoPin
  invertReads :: bool
  invertWrites :: bool
  defaultState :: DefaultIoState

text \<open>
  Modelled from the spec: the fields a pin is constructed with. The constructor is in the
  absent header; the test case of iopin.cpp calls it with the inversions and the
  primitive pin (and, in its commented-out variant, the default state between them).
\<close>

definition IoPin_new :: "IoPinInversions \<Rightarrow> DefaultIoState \<Rightarrow> PrimitiveIoPin \<Rightarrow> IoPin" where
  "IoPin_new inversions state pr =
     \<lparr>pin = pr,
      invertReads = (inversions = INVERT_READS \<or> inversions = INVERT_READS_AND_WRITES),
      invertWrites = (inversions = INVERT_WRITES \<or> inversions = INVERT_READS_AND_WRITES),
      defaultState = state\<rparr>"

definition isNull :: "IoPin \<Rightarrow> bool" where
  "isNull p = prim_isNull (pin p)"

definition translateWriteToPrimitive :: "IoPin \<Rightarrow> IoLevel \<Rightarrow> IoLevel" where
  "translateWriteToPrimitive p lev = (if invertWrites p then notLevel lev else lev)"

text \<open>The duty cycle is a \<open>float\<close> in the source; it is a real number here, so that
  \<open>1 - pwm\<close> is exact.\<close>

definition translateDutyCycleToPrimitive :: "IoPin \<Rightarrow> real \<Rightarrow> real" where
  "translateDutyCycleToPrimitive p pwm = (if invertWrites p then 1 - pwm else pwm)"

definition makeDigitalOutput :: "IoPin \<Rightarrow> IoLevel \<Rightarrow> Hardware \<Rightarrow> Hardware" where
  "makeDigitalOutput p lev hw =
     prim_makeDigitalOutput (pin p) (translateWriteToPrimitive p lev) hw"

definition makeDigitalInput :: "IoPin \<Rightarrow> Hardware \<Rightarrow> Hardware" where
  "makeDigitalInput p hw = prim_makeDigitalInput (pin p) hw"

definition digitalRead :: "IoLevel \<Rightarrow> IoPin \<Rightarrow> Hardware \<Rightarrow> IoLevel" where
  "digitalRead idle p hw =
     (if invertReads p then notLevel (prim_digitalRead idle (pin p) hw)
      else prim_digitalRead idle (pin p) hw)"

definition digitalWrite :: "IoPin \<Rightarrow> IoLevel \<Rightarrow> Hardware \<Rightarrow> Hardware" where
  "digitalWrite p lev hw = prim_digitalWrite (pin p) (translateWriteToPrimitive p lev) hw"

definition setToDefault :: "IoPin \<Rightarrow> Hardware \<Rightarrow> Hardware" where
  "setToDefault p hw =
     (if \<not> prim_isNull (pin p) then
        (if defaultState p = IO_DEFAULT_LOW then makeDigitalOutput p IoLow hw
         else if defaultState p = IO_DEFAULT_HIGH then makeDigitalOutput p IoHigh hw
         else if defaultState p = IO_DEFAULT_HIGH_IMPEDANCE then makeDigitalInput p hw
         else hw)
      else hw)"

subsection \<open>The registry of living pins\<close>

text \<open>
  Pin objects live at addresses; \<open>objs\<close> is the memory holding them, and \<open>livingPins\<close> is
  the static \<open>std::set<IoPin*>\<close>, a finite set of addresses that is iterated in ascending
  order.
\<close>

record Program =
  objs :: "nat \<Rightarrow> IoPin"
  livingPins :: "nat fset"
  hardware :: Hardware

definition deactivateAll :: "Program \<Rightarrow> Program" where
  "deactivateAll s =
     s\<lparr>hardware := fold (\<lambda>p hw. setToDefault (objs s p) hw)
                        (sorted_list_of_fset (livingPins s)) (hardware s)\<rparr>"

text \<open>The destructor \<open>IoPin::~IoPin\<close> of the object at address \<open>this\<close>.\<close>

definition IoPin_destroy :: "nat \<Rightarrow> Program \<Rightarrow> Program" where
  "IoPin_destroy this s =
     (let s1 = s\<lparr>hardware := setToDefault (objs s this) (hardware s)\<rparr>
      in s1\<lparr>livingPins := livingPins s1 |-| {|this|}\<rparr>)"

text \<open>Assignments to one data member of the object at an address.\<close>

definition set_pin :: "nat \<Rightarrow> PrimitiveIoPin \<Rightarrow> Program \<Rightarrow> Program" where
  "set_pin a v s = s\<lparr>objs := (objs s)(a := (objs s a)\<lparr>pin := v\<rparr>)\<rparr>"

definition set_invertReads :: "nat \<Rightarrow> bool \<Rightarrow> Program \<Rightarrow> Program" where
  "set_invertReads a v s = s\<lparr>objs := (objs s)(a := (objs s a)\<lparr>invertReads := v\<rparr>)\<rparr>"

definition set_invertWrites :: "nat \<Rightarrow> bool \<Rightarrow> Program \<Rightarrow> Program" where
  "set_invertWrites a v s = s\<lparr>objs := (objs s)(a := (objs s a)\<lparr>invertWrites := v\<rparr>)\<rparr>"

definition set_defaultState :: "nat \<Rightarrow> DefaultIoState \<Rightarrow> Program \<Rightarrow> Program" where
  "set_defaultState a v s = s\<lparr>objs := (objs s)(a := (objs s a)\<lparr>defaultState := v\<rparr>)\<rparr>"

text \<open>
  The move assignment \<open>IoPin::operator=(IoPin &&other)\<close> on the object at \<open>this\<close>,
  statement by statement; \<open>this\<close> and \<open>other\<close> are addresses, and may be the same one.
\<close>

definition IoPin_move_assign :: "nat \<Rightarrow> nat \<Rightarrow> Program \<Rightarrow> Program" where
  "IoPin_move_assign this other s =
     (let s1 = set_invertReads this (invertReads (objs s other)) s;
          s2 = set_invertWrites this (invertWrites (objs s1 other)) s1;
          s3 = set_defaultState this (defaultState (objs s2 other)) s2;
          s4 = set_pin this (pin (objs s3 other)) s3;
          s5 = set_pin other None s4;
          s6 = s5\<lparr>livingPins := finsert this (livingPins s5)\<rparr>
      in s6\<lparr>livingPins := livingPins s6 |-| {|other|}\<rparr>)"

text \<open>
  The move constructor \<open>IoPin::IoPin(IoPin &&other)\<close> for a new object at \<open>this\<close>: \<open>_pin\<close>
  is initialised to the null pin, the other members hold what the memory held, and the
  move assignment does the rest.
\<close>

definition IoPin_move_construct :: "nat \<Rightarrow> nat \<Rightarrow> Program \<Rightarrow> Program" where
  "IoPin_move_construct this other s = IoPin_move_assign this other (set_pin this None s)"

definition setDefaultState :: "nat \<Rightarrow> DefaultIoState \<Rightarrow> Program \<Rightarrow> Program" where
  "setDefaultState this state s = set_defaultState this state s"

text \<open>
  What it is for the line of a pin to be in the pin's default state: a digital output at
  the level that \<open>IoPin::makeDigitalOutput\<close> passes to the primitive pin for low or for
  high, or a digital input. Nothing is asked of a null pin or of a pin with no default.
\<close>

definition inDefaultState :: "IoPin \<Rightarrow> Hardware \<Rightarrow> bool" where
  "inDefaultState p hw = (case pin p of
       None \<Rightarrow> True
     | Some n \<Rightarrow> (case defaultState p of
           IO_DEFAULT_NONE \<Rightarrow> True
         | IO_DEFAULT_LOW \<Rightarrow>
             lines hw n = \<lparr>mode = DigitalOutput, level = translateWriteToPrimitive p IoLow\<rparr>
         | IO_DEFAULT_HIGH \<Rightarrow>
             lines hw n = \<lparr>mode = DigitalOutput, level = translateWriteToPrimitive p IoHigh\<rparr>
         | IO_DEFAULT_HIGH_IMPEDANCE \<Rightarrow> mode (lines hw n) = DigitalInput))"

text \<open>
  The calls on the primitive pin that drive a pin to its default state: one call for a
  pin that is not null and has a default, none otherwise.
\<close>

definition defaultCalls :: "IoPin \<Rightarrow> (PrimitiveIoPin \<times> PrimitiveCall) list" where
  "defaultCalls p = (case pin p of
       None \<Rightarrow> []
     | Some n \<Rightarrow> (case defaultState p of
           IO_DEFAULT_NONE \<Rightarrow> []
         | IO_DEFAULT_LOW \<Rightarrow> [(Some n, MakeDigitalOutput (translateWriteToPrimitive p IoLow))]
         | IO_DEFAULT_HIGH \<Rightarrow> [(Some n, MakeDigitalOutput (translateWriteToPrimitive p IoHigh))]
         | IO_DEFAULT_HIGH_IMPEDANCE \<Rightarrow> [(Some n, MakeDigitalInput)]))"

text \<open>
  The invariant of the spec's data model: at most one living pin references any given
  hardware line.
\<close>

definition noSharedLine :: "Program \<Rightarrow> bool" where
  "noSharedLine s =
     (\<forall>a b. a |\<in>| livingPins s \<and> b |\<in>| livingPins s \<and> a \<noteq> b \<and> pin (objs s a) \<noteq> None
        \<longrightarrow> pin (objs s a) \<noteq> pin (objs s b))"

text \<open>A program state to run the pin operations on: the pin at address \<open>1\<close> inverts writes
  and defaults to low on line 11, the pin at address \<open>2\<close> defaults to high impedance on line
  12, the pin at address \<open>3\<close> has no default on line 13, and the object at address \<open>4\<close> is a
  null pin that is not registered.\<close>

definition idleHardware :: Hardware where
  "idleHardware = \<lparr>lines = (\<lambda>n. \<lparr>mode = Unconfigured, level = IoLow\<rparr>), calls = []\<rparr>"

definition examplePins :: "nat \<Rightarrow> IoPin" where
  "examplePins a =
     (if a = 1 then IoPin_new INVERT_WRITES IO_DEFAULT_LOW (Some 11)
      else if a = 2 then IoPin_new INVERT_READS IO_DEFAULT_HIGH_IMPEDANCE (Some 12)
      else if a = 3 then IoPin_new NO_INVERSIONS IO_DEFAULT_NONE (Some 13)
      else IoPin_new NO_INVERSIONS IO_DEFAULT_HIGH None)"

definition exampleProgram :: Program where
  "exampleProgram = \<lparr>objs = examplePins, livingPins = {|1, 2, 3|}, hardware = idleHardware\<rparr>"

section \<open>The DMA proof of concept (proof-of-concept/DMA/dma-gpio.c)\<close>

type_synonym uint32_t = "32 word"
type_synonym uint64_t = "64 word"

definition GPIO_BASE :: uint32_t where "GPIO_BASE = 0x20200000"
definition GPIO_BASE_BUS :: uint32_t where "GPIO_BASE_BUS = 0x7E200000"
definition DMA_BASE :: uint32_t where "DMA_BASE = 0x20007000"
definition TIMER_BASE :: uint32_t where "TIMER_BASE = 0x20003000"
definition PAGE_SIZE :: nat where "PAGE_SIZE = 4096"
definition GPFSEL0 :: nat where "GPFSEL0 = 0x00000000"
definition GPSET0 :: nat where "GPSET0 = 0x0000001C"
definition GPCLR0 :: nat where "GPCLR0 = 0x00000028"
definition DMACH3 :: nat where "DMACH3 = 0x00000300"
definition DMAENABLE :: nat where "DMAENABLE = 0x00000ff0"

definition DMA_CS_RESET :: uint32_t where "DMA_CS_RESET = push_bit 31 1"
definition DMA_CS_ACTIVE :: uint32_t where "DMA_CS_ACTIVE = push_bit 0 1"

definition DMA_DEBUG_READ_ERROR :: uint32_t where "DMA_DEBUG_READ_ERROR = push_bit 2 1"
definition DMA_DEBUG_FIFO_ERROR :: uint32_t where "DMA_DEBUG_FIFO_ERROR = push_bit 1 1"
definition DMA_DEBUG_READ_LAST_NOT_SET_ERROR :: uint32_t where
  "DMA_DEBUG_READ_LAST_NOT_SET_ERROR = push_bit 0 1"

definition DMA_CB_TI_DEST_INC :: uint32_t where "DMA_CB_TI_DEST_INC = push_bit 4 1"
definition DMA_CB_TI_DEST_DREQ :: uint32_t where "DMA_CB_TI_DEST_DREQ = push_bit 6 1"
definition DMA_CB_TI_SRC_INC :: uint32_t where "DMA_CB_TI_SRC_INC = push_bit 8 1"
definition DMA_CB_TI_SRC_DREQ :: uint32_t where "DMA_CB_TI_SRC_DREQ = push_bit 10 1"
definition DMA_CB_TI_PERMAP_NONE :: uint32_t where "DMA_CB_TI_PERMAP_NONE = push_bit 16 0"
definition DMA_CB_TI_PERMAP_DSI :: uint32_t where "DMA_CB_TI_PERMAP_DSI = push_bit 16 1"
definition DMA_CB_TI_PERMAP_PWM :: uint32_t where "DMA_CB_TI_PERMAP_PWM = push_bit 16 5"
definition DMA_CB_TI_NO_WIDE_BURSTS :: uint32_t where "DMA_CB_TI_NO_WIDE_BURSTS = push_bit 26 1"

text \<open>
  \<open>writeBitmasked\<close> on a memory of 32-bit words: \<open>dest\<close> is read once and written twice. The
  cell is taken to hold what was last written to it. The parameters \<open>mask'\<close> and \<open>val\<close> are
  the source's \<open>mask\<close> and \<open>value\<close>.
\<close>

definition writeBitmasked ::
  "('a \<Rightarrow> uint32_t) \<Rightarrow> 'a \<Rightarrow> uint32_t \<Rightarrow> uint32_t \<Rightarrow> ('a \<Rightarrow> uint32_t)" where
  "writeBitmasked mem dest mask' val =
     (let cur = mem dest;
          new = (cur AND (NOT mask')) OR (val AND mask');
          mem1 = mem(dest := new)
      in mem1(dest := new))"

text \<open>The members of \<open>struct DmaControlBlock\<close> that \<open>main\<close> assigns.\<close>

record DmaControlBlock =
  TI :: uint32_t
  SOURCE_AD :: uint32_t
  DEST_AD :: uint32_t
  TXFR_LEN :: uint32_t
  STRIDE :: uint32_t
  NEXTCONBK :: uint32_t

text \<open>Word offsets of the members of \<open>struct DmaChannelHeader\<close> that \<open>main\<close> accesses; the
  header is at \<open>dmaBaseMem + DMACH3\<close>, which the pointer arithmetic counts in words too.\<close>

definition hdr_CS :: nat where "hdr_CS = 0"
definition hdr_CONBLK_AD :: nat where "hdr_CONBLK_AD = 1"
definition hdr_DEBUG :: nat where "hdr_DEBUG = 8"

text \<open>
  What the operating system and the hardware answer to the process: the descriptor that
  \<open>open("/dev/mem")\<close> returns; the address \<open>mmap\<close> returns for a physical address, \<open>None\<close>
  for \<open>MAP_FAILED\<close>; the page the \<open>k\<close>-th \<open>valloc\<close> returns, \<open>None\<close> for \<open>NULL\<close>; the eight
  bytes the \<open>k\<close>-th read of the pagemap delivers, \<open>None\<close> when that read (or the open before
  it) fails, in which case \<open>pageInfo\<close> keeps the value \<open>uninitialised k\<close> it had; the words
  behind the mapped GPIO and DMA pages, by word offset as the pointer arithmetic on
  \<open>uint32_t*\<close> counts; whether the word at an offset from \<open>dmaBaseMem\<close> is mapped memory
  (the page itself has 1024 words, and \<open>dmaBaseMem + DMAENABLE\<close> lies beyond them); and
  the value of the channel's \<open>CS\<close> register at the \<open>k\<close>-th test of the final loop.
\<close>

record Env =
  open_dev_mem :: int
  mmap_dev_mem :: "uint32_t \<Rightarrow> uint32_t option"
  valloc_page :: "nat \<Rightarrow> uint32_t option"
  pagemap_read :: "nat \<Rightarrow> uint64_t option"
  uninitialised :: "nat \<Rightarrow> uint64_t"
  gpio_words :: "nat \<Rightarrow> uint32_t"
  dma_words :: "nat \<Rightarrow> uint32_t"
  dma_mapped :: "nat \<Rightarrow> bool"
  cs_read :: "nat \<Rightarrow> uint32_t"

text \<open>How the process ends: \<open>exit(code)\<close> or \<open>return code\<close> from \<open>main\<close>, or an access to
  memory that is not mapped (through the null pointer that a failed \<open>valloc\<close> leaves, or
  beyond a mapped page).\<close>

datatype Termination = Exited int | Crashed

definition mapPeripheral :: "Env \<Rightarrow> uint32_t \<Rightarrow> Termination + uint32_t" where
  "mapPeripheral env addr = (case mmap_dev_mem env addr of
       None \<Rightarrow> Inl (Exited 1)
     | Some mapped \<Rightarrow> Inr mapped)"

text \<open>\<open>makeVirtPhysPage\<close>, called for the \<open>k\<close>-th time; the results of \<open>mlock\<close>, \<open>open\<close>,
  \<open>lseek\<close> and \<open>read\<close> are not looked at.\<close>

definition makeVirtPhysPage :: "Env \<Rightarrow> nat \<Rightarrow> Termination + (uint32_t \<times> uint32_t)" where
  "makeVirtPhysPage env k = (case valloc_page env k of
       None \<Rightarrow> Inl Crashed
     | Some virtAddr \<Rightarrow>
         (let pageInfo = (case pagemap_read env k of Some v \<Rightarrow> v | None \<Rightarrow> uninitialised env k);
              physAddr = (ucast (pageInfo * of_nat PAGE_SIZE) :: uint32_t)
          in Inr (virtAddr, physAddr)))"

text \<open>The memory \<open>main\<close> has written when it starts to wait for the transfer.\<close>

record Machine =
  gpio :: "nat \<Rightarrow> uint32_t"
  dma :: "nat \<Rightarrow> uint32_t"
  srcArray :: "uint32_t list"
  cb1 :: DmaControlBlock

text \<open>\<open>main\<close> up to the activation of the channel (lines 236 to 292).\<close>

definition main_setup :: "Env \<Rightarrow> Termination + Machine" where
  "main_setup env =
     (if open_dev_mem env < 0 then Inl (Exited 1)
      else case mapPeripheral env GPIO_BASE of Inl t \<Rightarrow> Inl t | Inr gpioBaseMem \<Rightarrow>
      (case mapPeripheral env DMA_BASE of Inl t \<Rightarrow> Inl t | Inr dmaBaseMem \<Rightarrow>
      (case mapPeripheral env TIMER_BASE of Inl t \<Rightarrow> Inl t | Inr timerBaseMem \<Rightarrow>
      (let fselMask = (push_bit (3*4) 0x7 :: uint32_t);
           fselValue = (push_bit (3*4) 0x1 :: uint32_t);
           gpio1 = (gpio_words env)
                     (GPFSEL0 := (gpio_words env GPFSEL0 AND NOT fselMask) OR fselValue)
       in case makeVirtPhysPage env 0 of Inl t \<Rightarrow> Inl t | Inr (virtSrcPage, physSrcPage) \<Rightarrow>
      (let src = [push_bit 4 1, 0, 0, push_bit 4 1, 0, 0]
       in case makeVirtPhysPage env 1 of Inl t \<Rightarrow> Inl t | Inr (virtCbPage, physCbPage) \<Rightarrow>
      (let cb = \<lparr>TI = DMA_CB_TI_SRC_INC OR DMA_CB_TI_DEST_INC OR DMA_CB_TI_NO_WIDE_BURSTS,
                 SOURCE_AD = physSrcPage,
                 DEST_AD = GPIO_BASE_BUS + of_nat GPSET0,
                 TXFR_LEN = 24,
                 STRIDE = 0,
                 NEXTCONBK = 0\<rparr>
       in if \<not> dma_mapped env DMAENABLE then Inl Crashed else
      (let dma1 = writeBitmasked (dma_words env) DMAENABLE (push_bit 3 1) (push_bit 3 1);
           dma2 = dma1(DMACH3 + hdr_CS := DMA_CS_RESET);
           dma3 = dma2(DMACH3 + hdr_DEBUG :=
                    DMA_DEBUG_READ_ERROR OR DMA_DEBUG_FIFO_ERROR OR DMA_DEBUG_READ_LAST_NOT_SET_ERROR);
           dma4 = dma3(DMACH3 + hdr_CONBLK_AD := physCbPage);
           dma5 = dma4(DMACH3 + hdr_CS := DMA_CS_ACTIVE)
       in Inr \<lparr>gpio = gpio1, dma = dma5, srcArray = src, cb1 = cb\<rparr>)))))))"

text \<open>The loop \<open>while (dmaHeader->CS & DMA_CS_ACTIVE) {}\<close>; the result is the number of the
  test that ended it, and \<open>None\<close> when no test does.\<close>

partial_function (option) wait_dma :: "(nat \<Rightarrow> uint32_t) \<Rightarrow> nat \<Rightarrow> nat option" where
  "wait_dma cs k = (if cs k AND DMA_CS_ACTIVE \<noteq> 0 then wait_dma cs (Suc k) else Some k)"

text \<open>\<open>main\<close>: \<open>None\<close> when the process never ends.\<close>

definition main :: "Env \<Rightarrow> Termination option" where
  "main env = (case main_setup env of
       Inl t \<Rightarrow> Some t
     | Inr m \<Rightarrow> (case wait_dma (cs_read env) 0 of
           None \<Rightarrow> None
         | Some k \<Rightarrow> Some (Exited 0)))"

text \<open>An environment in which every call succeeds and the transfer is over at the third
  test of \<open>CS\<close>, and variations of it.\<close>

definition goodEnv :: Env where
  "goodEnv = \<lparr>open_dev_mem = 3,
              mmap_dev_mem = (\<lambda>addr. Some (0xB6F00000 + (addr AND 0xFFFF))),
              valloc_page = (\<lambda>k. Some (0x00020000 + 0x1000 * of_nat k)),
              pagemap_read = (\<lambda>k. Some (0x8100000000012345 + of_nat k)),
              uninitialised = (\<lambda>k. 0),
              gpio_words = (\<lambda>i. 0),
              dma_words = (\<lambda>i. 0),
              dma_mapped = (\<lambda>i. True),
              cs_read = (\<lambda>k. if k < 2 then 1 else 2)\<rparr>"

definition noDevMemEnv :: Env where
  "noDevMemEnv = goodEnv\<lparr>open_dev_mem := -1\<rparr>"

definition noMmapEnv :: Env where
  "noMmapEnv = goodEnv\<lparr>mmap_dev_mem := (\<lambda>addr. if addr = DMA_BASE then None else Some 0xB6F00000)\<rparr>"

text \<open>Every call succeeds but the reads of the pagemap, which leave \<open>pageInfo\<close> with the
  value it happened to hold.\<close>

definition noPagemapEnv :: Env where
  "noPagemapEnv = goodEnv\<lparr>pagemap_read := (\<lambda>k. None), uninitialised := (\<lambda>k. 0xDEADBEEF)\<rparr>"

section \<open>The Kossel machine (firmware/src/drivers/machines/kosselpi.h)\<close>

definition R1000 :: int where "R1000 = 111000"
definition L1000 :: int where "L1000 = 221000"
definition H1000 :: int where "H1000 = 467330"
definition BUILDRAD1000 :: int where "BUILDRAD1000 = 85000"
definition STEPS_M :: int where "STEPS_M = 6265*4"
definition STEPS_M_EXT :: int where "STEPS_M_EXT = 10000*8"
definition MAX_MOVE_RATE :: int where "MAX_MOVE_RATE = 50"
definition HOME_RATE :: int where "HOME_RATE = 10"
definition MAX_EXT_RATE :: int where "MAX_EXT_RATE = 60"

text \<open>The rates are \<open>float\<close> in the source and real numbers here; \<open>std_min\<close> is \<open>std::min\<close>,
  which returns its second argument only when that is the smaller one.\<close>

definition std_min :: "real \<Rightarrow> real \<Rightarrow> real" where
  "std_min a b = (if b < a then b else a)"

definition defaultMoveRate :: real where
  "defaultMoveRate = of_int MAX_MOVE_RATE"

definition maxRetractRate :: real where
  "maxRetractRate = of_int MAX_EXT_RATE"

definition maxExtrudeRate :: real where
  "maxExtrudeRate = of_int MAX_EXT_RATE"

definition clampMoveRate :: "real \<Rightarrow> real" where
  "clampMoveRate inp = std_min inp defaultMoveRate"

definition clampHomeRate :: "real \<Rightarrow> real" where
  "clampHomeRate inp = of_int HOME_RATE"

subsection \<open>The linear delta coordinate map\<close>

text \<open>
  Modelled from the spec: the configuration of the linear delta coordinate map (the
  template \<open>LinearDeltaCoordMap\<close> is not part of the sources). Lengths are in micrometers;
  the bed level is a matrix of integers over a common denominator, and an offset.
\<close>

type_synonym vec3 = "real \<times> real \<times> real"

record Matrix3Static =
  a00 :: int  a01 :: int  a02 :: int
  a10 :: int  a11 :: int  a12 :: int
  a20 :: int  a21 :: int  a22 :: int
  denominator :: int

record DeltaConfig =
  R :: real
  L :: real
  H :: real
  build_radius :: real
  steps_per_m :: real
  bed_level :: Matrix3Static
  bed_offset :: vec3

text \<open>Modelled from the spec: its invariants, \<open>R, L, H > 0\<close>, \<open>build_radius \<le> R\<close> and
  \<open>L\<^sup>2 \<ge> (R - build_radius)\<^sup>2\<close>.\<close>

definition config_valid :: "DeltaConfig \<Rightarrow> bool" where
  "config_valid c =
     (0 < R c \<and> 0 < L c \<and> 0 < H c \<and> build_radius c \<le> R c \<and> (L c)\<^sup>2 \<ge> (R c - build_radius c)\<^sup>2)"

text \<open>Modelled from the spec: the bed-level correction \<open>(x', y', z') = M\<cdot>(x, y, z) + t\<close>.\<close>

definition bedLevel :: "DeltaConfig \<Rightarrow> vec3 \<Rightarrow> vec3" where
  "bedLevel c v = (case v of (x, y, z) \<Rightarrow> (case bed_offset c of (tx, ty, tz) \<Rightarrow>
     (let m = bed_level c; d = of_int (denominator m) in
      ((of_int (a00 m) * x + of_int (a01 m) * y + of_int (a02 m) * z) / d + tx,
       (of_int (a10 m) * x + of_int (a11 m) * y + of_int (a12 m) * z) / d + ty,
       (of_int (a20 m) * x + of_int (a21 m) * y + of_int (a22 m) * z) / d + tz))))"

datatype Tower = TowerA | TowerB | TowerC

text \<open>Modelled from the spec: the tower angles 90, 210 and 330 degrees.\<close>

fun towerAngle :: "Tower \<Rightarrow> real" where
  "towerAngle TowerA = pi / 2"
| "towerAngle TowerB = 7 * pi / 6"
| "towerAngle TowerC = 11 * pi / 6"

datatype CoordError = OutOfEnvelope

text \<open>
  Modelled from the spec: the carriage height
  \<open>h\<^sub>i = z' + \<surd>(L\<^sup>2 - (x' - R cos \<theta>\<^sub>i)\<^sup>2 - (y' - R sin \<theta>\<^sub>i)\<^sup>2)\<close>, with \<open>OutOfEnvelope\<close> for
  \<open>x\<^sup>2 + y\<^sup>2 > build_radius\<^sup>2\<close> and for a negative radicand, and the step count
  \<open>round(h\<^sub>i \<cdot> steps_per_m)\<close> of the height taken in meters.
\<close>

definition radicand :: "DeltaConfig \<Rightarrow> Tower \<Rightarrow> vec3 \<Rightarrow> real" where
  "radicand c i v = (case bedLevel c v of (x', y', z') \<Rightarrow>
     (L c)\<^sup>2 - (x' - R c * cos (towerAngle i))\<^sup>2 - (y' - R c * sin (towerAngle i))\<^sup>2)"

definition carriageHeight :: "DeltaConfig \<Rightarrow> Tower \<Rightarrow> vec3 \<Rightarrow> CoordError + real" where
  "carriageHeight c i v = (case v of (x, y, z) \<Rightarrow>
     if x\<^sup>2 + y\<^sup>2 > (build_radius c)\<^sup>2 then Inl OutOfEnvelope
     else if radicand c i v < 0 then Inl OutOfEnvelope
     else (case bedLevel c v of (x', y', z') \<Rightarrow> Inr (z' + sqrt (radicand c i v))))"

definition carriageSteps :: "DeltaConfig \<Rightarrow> Tower \<Rightarrow> vec3 \<Rightarrow> CoordError + int" where
  "carriageSteps c i v = (case carriageHeight c i v of
       Inl e \<Rightarrow> Inl e
     | Inr h \<Rightarrow> Inr (round (h / 1000000 * steps_per_m c)))"

text \<open>Modelled from the spec: the identity bed level, and the reference delta configured
  with the constants of kosselpi.h.\<close>

definition Identity3Static :: Matrix3Static where
  "Identity3Static = \<lparr>a00 = 1, a01 = 0, a02 = 0,
                       a10 = 0, a11 = 1, a12 = 0,
                       a20 = 0, a21 = 0, a22 = 1, denominator = 1\<rparr>"

definition KosselPi :: "Matrix3Static \<Rightarrow> DeltaConfig" where
  "KosselPi bl = \<lparr>R = of_int R1000, L = of_int L1000, H = of_int H1000,
                  build_radius = of_int BUILDRAD1000, steps_per_m = of_int STEPS_M,
                  bed_level = bl, bed_offset = (0, 0, 0)\<rparr>"

section \<open>Properties of the I/O pin wrapper\<close>

lemmas prim_defs = prim_call_def prim_apply_def prim_makeDigitalOutput_def
  prim_makeDigitalInput_def prim_digitalWrite_def prim_isNull_def prim_digitalRead_def

lemmas pin_defs = makeDigitalOutput_def makeDigitalInput_def digitalWrite_def

lemma lines_prim_call_other:
  "pr \<noteq> Some n \<Longrightarrow> lines (prim_call pr c hw) n = lines hw n"
  by (cases pr) (simp_all add: prim_call_def)

lemma lines_setToDefault_other:
  "pin p \<noteq> Some n \<Longrightarrow> lines (setToDefault p hw) n = lines hw n"
  by (simp add: setToDefault_def pin_defs prim_makeDigitalOutput_def prim_makeDigitalInput_def
      lines_prim_call_other)

lemma inDefaultState_setToDefault: "inDefaultState p (setToDefault p hw)"
  by (cases "pin p"; cases "defaultState p")
     (simp_all add: inDefaultState_def setToDefault_def pin_defs prim_defs)

lemma inDefaultState_lines:
  assumes "\<And>n. pin p = Some n \<Longrightarrow> lines hw' n = lines hw n"
  shows "inDefaultState p hw' = inDefaultState p hw"
  using assms by (cases "pin p"; cases "defaultState p") (simp_all add: inDefaultState_def)

lemma inDefaultState_fold_others:
  assumes "\<And>b. b \<in> set xs \<Longrightarrow> pin (f b) \<noteq> pin p" and "pin p \<noteq> None"
  shows "inDefaultState p (fold (\<lambda>b hw. setToDefault (f b) hw) xs hw) = inDefaultState p hw"
  using assms(1)
proof (induction xs arbitrary: hw)
  case Nil
  show ?case by simp
next
  case (Cons x xs)
  have "pin (f x) \<noteq> pin p" using Cons.prems by simp
  then have "inDefaultState p (setToDefault (f x) hw) = inDefaultState p hw"
    by (intro inDefaultState_lines lines_setToDefault_other) auto
  moreover have "inDefaultState p (fold (\<lambda>b hw. setToDefault (f b) hw) xs (setToDefault (f x) hw))
      = inDefaultState p (setToDefault (f x) hw)"
    using Cons.prems by (intro Cons.IH) simp
  ultimately show ?case by simp
qed

lemma inDefaultState_fold:
  assumes "a \<in> set xs"
    and "\<And>b. b \<in> set xs \<Longrightarrow> b \<noteq> a \<Longrightarrow> pin (f b) \<noteq> pin (f a)"
    and "pin (f a) \<noteq> None"
  shows "inDefaultState (f a) (fold (\<lambda>b hw. setToDefault (f b) hw) xs hw)"
  using assms(1,2)
proof (induction xs arbitrary: hw)
  case Nil
  then show ?case by simp
next
  case (Cons x xs)
  show ?case
  proof (cases "a \<in> set xs")
    case True
    then show ?thesis using Cons.prems(2) by (simp add: Cons.IH)
  next
    case False
    then have ax: "x = a" using Cons.prems(1) by simp
    have "\<And>b. b \<in> set xs \<Longrightarrow> pin (f b) \<noteq> pin (f a)"
      using Cons.prems(2) False by auto
    then have "inDefaultState (f a) (fold (\<lambda>b hw. setToDefault (f b) hw) xs (setToDefault (f a) hw))
        = inDefaultState (f a) (setToDefault (f a) hw)"
      using assms(3) by (intro inDefaultState_fold_others) auto
    then show ?thesis by (simp add: ax inDefaultState_setToDefault)
  qed
qed

lemma deactivateAll_inDefaultState:
  assumes "noSharedLine s" and "a |\<in>| livingPins s"
  shows "inDefaultState (objs s a) (hardware (deactivateAll s))"
proof (cases "pin (objs s a)")
  case None
  then show ?thesis by (simp add: inDefaultState_def)
next
  case (Some n)
  have "inDefaultState (objs s a)
     (fold (\<lambda>b hw. setToDefault (objs s b) hw) (sorted_list_of_fset (livingPins s)) (hardware s))"
  proof (rule inDefaultState_fold)
    show "a \<in> set (sorted_list_of_fset (livingPins s))" using assms(2) by simp
    show "pin (objs s a) \<noteq> None" using Some by simp
    fix b assume "b \<in> set (sorted_list_of_fset (livingPins s))" and "b \<noteq> a"
    then show "pin (objs s b) \<noteq> pin (objs s a)"
      using assms Some unfolding noSharedLine_def by (metis option.distinct(1) sorted_list_of_fset_simps(1))
  qed
  then show ?thesis by (simp add: deactivateAll_def)
qed

lemma calls_setToDefault: "calls (setToDefault p hw) = calls hw @ defaultCalls p"
  by (cases "pin p"; cases "defaultState p")
     (simp_all add: setToDefault_def defaultCalls_def pin_defs prim_defs)

lemma calls_fold_setToDefault:
  "calls (fold (\<lambda>a hw. setToDefault (f a) hw) xs hw) =
   calls hw @ concat (map (\<lambda>a. defaultCalls (f a)) xs)"
  by (induction xs arbitrary: hw) (simp_all add: calls_setToDefault)

text \<open>
  Claim C1, amended. At process exit and on destruction every living pin that is not null
  is driven to its default state, the default level being written as the pin writes any
  level, through its write inversion. \<open>setToDefault\<close> on a pin of line \<open>n\<close> is
  \<open>makeDigitalOutput(IoLow)\<close> for the default low, \<open>makeDigitalOutput(IoHigh)\<close> for the
  default high and \<open>makeDigitalInput()\<close> for the default high impedance: one call on the
  primitive pin, after which the line is a digital output at
  \<open>translateWriteToPrimitive\<close> of low or of high, or a digital input. The destructor
  leaves the hardware as \<open>setToDefault\<close> does and the pin out of the registry.
  \<open>deactivateAll\<close> runs \<open>setToDefault\<close> over the registry in ascending order, making the
  default calls of each living pin in turn, and when no two living pins share a line,
  every living pin is in its default state afterwards.
\<close>

theorem pins_driven_to_default:
  "(pin p = Some n \<and> defaultState p = IO_DEFAULT_LOW \<longrightarrow>
       setToDefault p hw = makeDigitalOutput p IoLow hw
     \<and> calls (setToDefault p hw) =
         calls hw @ [(Some n, MakeDigitalOutput (translateWriteToPrimitive p IoLow))]
     \<and> lines (setToDefault p hw) n =
         \<lparr>mode = DigitalOutput, level = translateWriteToPrimitive p IoLow\<rparr>)
   \<and> (pin p = Some n \<and> defaultState p = IO_DEFAULT_HIGH \<longrightarrow>
       setToDefault p hw = makeDigitalOutput p IoHigh hw
     \<and> calls (setToDefault p hw) =
         calls hw @ [(Some n, MakeDigitalOutput (translateWriteToPrimitive p IoHigh))]
     \<and> lines (setToDefault p hw) n =
         \<lparr>mode = DigitalOutput, level = translateWriteToPrimitive p IoHigh\<rparr>)
   \<and> (pin p = Some n \<and> defaultState p = IO_DEFAULT_HIGH_IMPEDANCE \<longrightarrow>
       setToDefault p hw = makeDigitalInput p hw
     \<and> calls (setToDefault p hw) = calls hw @ [(Some n, MakeDigitalInput)]
     \<and> mode (lines (setToDefault p hw) n) = DigitalInput)
   \<and> hardware (IoPin_destroy this s) = setToDefault (objs s this) (hardware s)
   \<and> inDefaultState (objs s this) (hardware (IoPin_destroy this s))
   \<and> this |\<notin>| livingPins (IoPin_destroy this s)
   \<and> hardware (deactivateAll s) =
        fold (\<lambda>a hw. setToDefault (objs s a) hw) (sorted_list_of_fset (livingPins s)) (hardware s)
   \<and> calls (hardware (deactivateAll s)) =
        calls (hardware s) @
        concat (map (\<lambda>a. defaultCalls (objs s a)) (sorted_list_of_fset (livingPins s)))
   \<and> (noSharedLine s \<longrightarrow>
        (\<forall>a. a |\<in>| livingPins s \<longrightarrow> inDefaultState (objs s a) (hardware (deactivateAll s))))"
proof -
  have low: "pin p = Some n \<and> defaultState p = IO_DEFAULT_LOW \<longrightarrow>
       setToDefault p hw = makeDigitalOutput p IoLow hw
     \<and> calls (setToDefault p hw) =
         calls hw @ [(Some n, MakeDigitalOutput (translateWriteToPrimitive p IoLow))]
     \<and> lines (setToDefault p hw) n =
         \<lparr>mode = DigitalOutput, level = translateWriteToPrimitive p IoLow\<rparr>"
    by (simp add: setToDefault_def pin_defs prim_defs)
  have high: "pin p = Some n \<and> defaultState p = IO_DEFAULT_HIGH \<longrightarrow>
       setToDefault p hw = makeDigitalOutput p IoHigh hw
     \<and> calls (setToDefault p hw) =
         calls hw @ [(Some n, MakeDigitalOutput (translateWriteToPrimitive p IoHigh))]
     \<and> lines (setToDefault p hw) n =
         \<lparr>mode = DigitalOutput, level = translateWriteToPrimitive p IoHigh\<rparr>"
    by (simp add: setToDefault_def pin_defs prim_defs)
  have hiz: "pin p = Some n \<and> defaultState p = IO_DEFAULT_HIGH_IMPEDANCE \<longrightarrow>
       setToDefault p hw = makeDigitalInput p hw
     \<and> calls (setToDefault p hw) = calls hw @ [(Some n, MakeDigitalInput)]
     \<and> mode (lines (setToDefault p hw) n) = DigitalInput"
    by (simp add: setToDefault_def pin_defs prim_defs)
  have destroy: "hardware (IoPin_destroy this s) = setToDefault (objs s this) (hardware s)"
    "this |\<notin>| livingPins (IoPin_destroy this s)"
    by (simp_all add: IoPin_destroy_def Let_def)
  have destroyed: "inDefaultState (objs s this) (hardware (IoPin_destroy this s))"
    by (simp add: destroy(1) inDefaultState_setToDefault)
  have iter: "hardware (deactivateAll s) =
        fold (\<lambda>a hw. setToDefault (objs s a) hw) (sorted_list_of_fset (livingPins s)) (hardware s)"
    by (simp add: deactivateAll_def)
  have all: "noSharedLine s \<longrightarrow>
        (\<forall>a. a |\<in>| livingPins s \<longrightarrow> inDefaultState (objs s a) (hardware (deactivateAll s)))"
    by (simp add: deactivateAll_inDefaultState)
  have trace: "calls (hardware (deactivateAll s)) =
        calls (hardware s) @
        concat (map (\<lambda>a. defaultCalls (objs s a)) (sorted_list_of_fset (livingPins s)))"
    by (simp add: deactivateAll_def calls_fold_setToDefault)
  show ?thesis using low high hiz destroy destroyed iter trace all by blast
qed

lemma exampleProgram_noSharedLine: "noSharedLine exampleProgram"
  by (simp add: noSharedLine_def exampleProgram_def examplePins_def IoPin_new_def)

theorem pins_driven_to_default_witness:
  "noSharedLine exampleProgram
   \<and> 1 |\<in>| livingPins exampleProgram \<and> 2 |\<in>| livingPins exampleProgram
   \<and> pin (examplePins 1) = Some 11 \<and> defaultState (examplePins 1) = IO_DEFAULT_LOW
   \<and> pin (examplePins 2) = Some 12 \<and> defaultState (examplePins 2) = IO_DEFAULT_HIGH_IMPEDANCE
   \<and> lines (setToDefault (examplePins 1) idleHardware) 11 =
        \<lparr>mode = DigitalOutput, level = IoHigh\<rparr>
   \<and> mode (lines (setToDefault (examplePins 2) idleHardware) 12) = DigitalInput
   \<and> lines (hardware (deactivateAll exampleProgram)) 11 = \<lparr>mode = DigitalOutput, level = IoHigh\<rparr>
   \<and> mode (lines (hardware (deactivateAll exampleProgram)) 12) = DigitalInput
   \<and> lines (hardware (IoPin_destroy 1 exampleProgram)) 11 = \<lparr>mode = DigitalOutput, level = IoHigh\<rparr>"
proof -
  have p: "pin (examplePins 1) = Some 11" "defaultState (examplePins 1) = IO_DEFAULT_LOW"
    "pin (examplePins 2) = Some 12" "defaultState (examplePins 2) = IO_DEFAULT_HIGH_IMPEDANCE"
    "translateWriteToPrimitive (examplePins 1) IoLow = IoHigh"
    by (simp_all add: examplePins_def IoPin_new_def translateWriteToPrimitive_def)
  have m: "1 |\<in>| livingPins exampleProgram" "2 |\<in>| livingPins exampleProgram"
    "objs exampleProgram = examplePins" "hardware exampleProgram = idleHardware"
    by (simp_all add: exampleProgram_def)
  note t1 = pins_driven_to_default [of "examplePins 1" 11 idleHardware 1 exampleProgram]
  note t2 = pins_driven_to_default [of "examplePins 2" 12 idleHardware 2 exampleProgram]
  have "lines (setToDefault (examplePins 1) idleHardware) 11 =
        \<lparr>mode = DigitalOutput, level = translateWriteToPrimitive (examplePins 1) IoLow\<rparr>"
    using t1 p(1,2) by blast
  then have a1: "lines (setToDefault (examplePins 1) idleHardware) 11 =
        \<lparr>mode = DigitalOutput, level = IoHigh\<rparr>"
    by (simp only: p(5))
  have a2: "mode (lines (setToDefault (examplePins 2) idleHardware) 12) = DigitalInput"
    using t2 p(3,4) by blast
  have "\<forall>a. a |\<in>| livingPins exampleProgram \<longrightarrow>
      inDefaultState (objs exampleProgram a) (hardware (deactivateAll exampleProgram))"
    using t1 exampleProgram_noSharedLine by blast
  then have "inDefaultState (examplePins 1) (hardware (deactivateAll exampleProgram))"
    and "inDefaultState (examplePins 2) (hardware (deactivateAll exampleProgram))"
    using m by auto
  then have a3: "lines (hardware (deactivateAll exampleProgram)) 11 =
        \<lparr>mode = DigitalOutput, level = IoHigh\<rparr>"
    and a4: "mode (lines (hardware (deactivateAll exampleProgram)) 12) = DigitalInput"
    using p by (simp_all add: inDefaultState_def)
  have "inDefaultState (objs exampleProgram 1) (hardware (IoPin_destroy 1 exampleProgram))"
    using t1 by blast
  then have a5: "lines (hardware (IoPin_destroy 1 exampleProgram)) 11 =
        \<lparr>mode = DigitalOutput, level = IoHigh\<rparr>"
    using p m by (simp add: inDefaultState_def)
  show ?thesis
    using a1 a2 a3 a4 a5 p m exampleProgram_noSharedLine by simp
qed

text \<open>
  Claim C1 as stated fails for a pin that inverts writes: the pin at address 1 has the
  default low, and \<open>setToDefault\<close>, its destructor and \<open>deactivateAll\<close> each leave its line
  11 a digital output at level high.
\<close>

theorem inverted_default_counterexample:
  "pin (examplePins 1) = Some 11
   \<and> defaultState (examplePins 1) = IO_DEFAULT_LOW
   \<and> invertWrites (examplePins 1)
   \<and> 1 |\<in>| livingPins exampleProgram
   \<and> lines (setToDefault (examplePins 1) idleHardware) 11 =
        \<lparr>mode = DigitalOutput, level = IoHigh\<rparr>
   \<and> lines (hardware (IoPin_destroy 1 exampleProgram)) 11 =
        \<lparr>mode = DigitalOutput, level = IoHigh\<rparr>
   \<and> lines (hardware (deactivateAll exampleProgram)) 11 =
        \<lparr>mode = DigitalOutput, level = IoHigh\<rparr>"
proof -
  have p: "pin (examplePins 1) = Some 11" "defaultState (examplePins 1) = IO_DEFAULT_LOW"
    "invertWrites (examplePins 1)" "translateWriteToPrimitive (examplePins 1) IoLow = IoHigh"
    by (simp_all add: examplePins_def IoPin_new_def translateWriteToPrimitive_def)
  have m: "1 |\<in>| livingPins exampleProgram" "objs exampleProgram = examplePins"
    "hardware exampleProgram = idleHardware"
    by (simp_all add: exampleProgram_def)
  have "inDefaultState (examplePins 1) (setToDefault (examplePins 1) idleHardware)"
    by (rule inDefaultState_setToDefault)
  then have a: "lines (setToDefault (examplePins 1) idleHardware) 11 =
        \<lparr>mode = DigitalOutput, level = IoHigh\<rparr>"
    using p by (simp add: inDefaultState_def)
  then have b: "lines (hardware (IoPin_destroy 1 exampleProgram)) 11 =
        \<lparr>mode = DigitalOutput, level = IoHigh\<rparr>"
    using m by (simp add: IoPin_destroy_def Let_def)
  have "inDefaultState (objs exampleProgram 1) (hardware (deactivateAll exampleProgram))"
    using exampleProgram_noSharedLine m(1) by (rule deactivateAll_inDefaultState)
  then have c: "lines (hardware (deactivateAll exampleProgram)) 11 =
        \<lparr>mode = DigitalOutput, level = IoHigh\<rparr>"
    using p m by (simp add: inDefaultState_def)
  show ?thesis using p m a b c by simp
qed

text \<open>
  Claim C2. Writes and duty cycles are inverted exactly when \<open>invert_writes\<close> is set, reads
  exactly when \<open>invert_reads\<close> is set: \<open>translateWriteToPrimitive\<close> gives the negated level
  or the level, \<open>translateDutyCycleToPrimitive\<close> gives \<open>1 - d\<close> or \<open>d\<close>, \<open>digitalRead\<close> gives the
  negated or the plain read of the primitive pin, and \<open>digitalWrite\<close> writes the translated
  level. A pin constructed with \<open>INVERT_READS\<close> only leaves writes and duty cycles as they
  are, one with \<open>INVERT_WRITES\<close> only leaves reads as they are, one with both inverts
  both; a duty cycle of 0.2 stays 0.2 or becomes 0.8.
\<close>

theorem inversion_laws:
  "translateWriteToPrimitive p lev = (if invertWrites p then notLevel lev else lev)
   \<and> ((translateWriteToPrimitive p lev = notLevel lev) = invertWrites p)
   \<and> translateDutyCycleToPrimitive p d = (if invertWrites p then 1 - d else d)
   \<and> digitalRead idle p hw =
        (if invertReads p then notLevel (prim_digitalRead idle (pin p) hw)
         else prim_digitalRead idle (pin p) hw)
   \<and> ((digitalRead idle p hw = notLevel (prim_digitalRead idle (pin p) hw)) = invertReads p)
   \<and> digitalWrite p lev hw =
        prim_digitalWrite (pin p) (if invertWrites p then notLevel lev else lev) hw
   \<and> translateWriteToPrimitive (IoPin_new INVERT_READS st pr) lev = lev
   \<and> translateDutyCycleToPrimitive (IoPin_new INVERT_READS st pr) d = d
   \<and> digitalRead idle (IoPin_new INVERT_READS st pr) hw = notLevel (prim_digitalRead idle pr hw)
   \<and> translateWriteToPrimitive (IoPin_new INVERT_WRITES st pr) lev = notLevel lev
   \<and> translateDutyCycleToPrimitive (IoPin_new INVERT_WRITES st pr) d = 1 - d
   \<and> digitalRead idle (IoPin_new INVERT_WRITES st pr) hw = prim_digitalRead idle pr hw
   \<and> translateWriteToPrimitive (IoPin_new INVERT_READS_AND_WRITES st pr) lev = notLevel lev
   \<and> translateDutyCycleToPrimitive (IoPin_new INVERT_READS_AND_WRITES st pr) d = 1 - d
   \<and> digitalRead idle (IoPin_new INVERT_READS_AND_WRITES st pr) hw
        = notLevel (prim_digitalRead idle pr hw)
   \<and> translateDutyCycleToPrimitive (IoPin_new INVERT_READS st pr) 0.2 = 0.2
   \<and> translateDutyCycleToPrimitive (IoPin_new INVERT_WRITES st pr) 0.2 = 0.8"
  by (cases lev; cases "prim_digitalRead idle (pin p) hw")
     (simp_all add: translateWriteToPrimitive_def translateDutyCycleToPrimitive_def
        digitalRead_def digitalWrite_def IoPin_new_def)

lemma move_assign_distinct:
  assumes "this \<noteq> other"
  shows "pin (objs (IoPin_move_assign this other s) this) = pin (objs s other)
    \<and> invertReads (objs (IoPin_move_assign this other s) this) = invertReads (objs s other)
    \<and> invertWrites (objs (IoPin_move_assign this other s) this) = invertWrites (objs s other)
    \<and> defaultState (objs (IoPin_move_assign this other s) this) = defaultState (objs s other)
    \<and> this |\<in>| livingPins (IoPin_move_assign this other s)
    \<and> isNull (objs (IoPin_move_assign this other s) other)
    \<and> other |\<notin>| livingPins (IoPin_move_assign this other s)"
  using assms
  by (simp add: IoPin_move_assign_def Let_def set_pin_def set_invertReads_def
      set_invertWrites_def set_defaultState_def isNull_def prim_isNull_def)

lemma set_pin_other: "a \<noteq> b \<Longrightarrow> objs (set_pin a v s) b = objs s b"
  by (simp add: set_pin_def)

text \<open>
  Claim C4, amended. A move to an object other than the source (which a move construction
  always is) transfers the ownership of the line: afterwards the destination holds the
  primitive pin, the inversion flags and the default state that the source had, and is in
  the registry, while the source is null and not in the registry.
\<close>

theorem move_transfers_ownership:
  assumes "this \<noteq> other"
    and "s' = IoPin_move_assign this other s \<or> s' = IoPin_move_construct this other s"
  shows "pin (objs s' this) = pin (objs s other)
    \<and> invertReads (objs s' this) = invertReads (objs s other)
    \<and> invertWrites (objs s' this) = invertWrites (objs s other)
    \<and> defaultState (objs s' this) = defaultState (objs s other)
    \<and> this |\<in>| livingPins s'
    \<and> isNull (objs s' other)
    \<and> other |\<notin>| livingPins s'"
proof -
  from assms(2) show ?thesis
  proof
    assume "s' = IoPin_move_assign this other s"
    then show ?thesis using move_assign_distinct [OF assms(1)] by simp
  next
    assume c: "s' = IoPin_move_construct this other s"
    have "objs (set_pin this None s) other = objs s other"
      using assms(1) by (simp add: set_pin_other)
    then show ?thesis
      using move_assign_distinct [OF assms(1), of "set_pin this None s"] c
      by (simp add: IoPin_move_construct_def)
  qed
qed

theorem move_transfers_ownership_witness:
  "(1::nat) \<noteq> 4
   \<and> pin (objs (IoPin_move_assign 4 1 exampleProgram) 4) = Some 11
   \<and> invertWrites (objs (IoPin_move_assign 4 1 exampleProgram) 4)
   \<and> 4 |\<in>| livingPins (IoPin_move_assign 4 1 exampleProgram)
   \<and> isNull (objs (IoPin_move_assign 4 1 exampleProgram) 1)
   \<and> 1 |\<notin>| livingPins (IoPin_move_assign 4 1 exampleProgram)
   \<and> pin (objs (IoPin_move_construct 5 2 exampleProgram) 5) = Some 12
   \<and> 5 |\<in>| livingPins (IoPin_move_construct 5 2 exampleProgram)
   \<and> 2 |\<notin>| livingPins (IoPin_move_construct 5 2 exampleProgram)"
proof -
  have a: "(4::nat) \<noteq> 1" and b: "(5::nat) \<noteq> 2" by simp_all
  have p1: "pin (objs exampleProgram 1) = Some 11" "invertWrites (objs exampleProgram 1)"
    "pin (objs exampleProgram 2) = Some 12"
    by (simp_all add: exampleProgram_def examplePins_def IoPin_new_def)
  show ?thesis
    using move_transfers_ownership [OF a, of "IoPin_move_assign 4 1 exampleProgram" exampleProgram]
      move_transfers_ownership [OF b, of "IoPin_move_construct 5 2 exampleProgram" exampleProgram]
      p1
    by simp
qed

text \<open>
  Claim C4 as stated fails for the move assignment of a pin to itself: the pin at address 1
  holds line 11 and is registered, and after \<open>p = std::move(p)\<close> it is null and no longer
  in the registry.
\<close>

theorem self_move_counterexample:
  "pin (objs exampleProgram 1) = Some 11
   \<and> 1 |\<in>| livingPins exampleProgram
   \<and> pin (objs (IoPin_move_assign 1 1 exampleProgram) 1) = None
   \<and> 1 |\<notin>| livingPins (IoPin_move_assign 1 1 exampleProgram)"
  by (simp add: exampleProgram_def examplePins_def IoPin_new_def IoPin_move_assign_def Let_def
      set_pin_def set_invertReads_def set_invertWrites_def set_defaultState_def)

text \<open>
  Claim C5. A pin whose primitive pin is null is silent: \<open>isNull\<close> holds, \<open>digitalWrite\<close>,
  \<open>makeDigitalOutput\<close> and \<open>makeDigitalInput\<close> change no line, \<open>setToDefault\<close> leaves the
  hardware as it is without any call on the primitive pin, and \<open>digitalRead\<close> returns the
  idle level of the null primitive pin (negated for a pin that inverts reads), whatever
  the state of the hardware.
\<close>

theorem null_pin_silent:
  assumes "pin p = None"
  shows "isNull p
    \<and> lines (digitalWrite p lev hw) = lines hw
    \<and> lines (makeDigitalOutput p lev hw) = lines hw
    \<and> lines (makeDigitalInput p hw) = lines hw
    \<and> setToDefault p hw = hw
    \<and> digitalRead idle p hw = (if invertReads p then notLevel idle else idle)
    \<and> digitalRead idle p hw = digitalRead idle p hw'"
  using assms by (simp add: isNull_def setToDefault_def pin_defs prim_defs digitalRead_def)

theorem null_pin_silent_witness:
  "pin (examplePins 4) = None
   \<and> isNull (examplePins 4)
   \<and> lines (digitalWrite (examplePins 4) IoHigh idleHardware) = lines idleHardware
   \<and> setToDefault (examplePins 4) idleHardware = idleHardware
   \<and> digitalRead IoLow (examplePins 4) idleHardware = IoLow"
proof -
  have h: "pin (examplePins 4) = None" "\<not> invertReads (examplePins 4)"
    by (simp_all add: examplePins_def IoPin_new_def)
  show ?thesis
    using null_pin_silent [OF h(1), of IoHigh idleHardware IoLow idleHardware] h by simp
qed

lemma setToDefault_none: "defaultState p = IO_DEFAULT_NONE \<Longrightarrow> setToDefault p hw = hw"
  by (simp add: setToDefault_def)

lemma fold_setToDefault_filter:
  "fold (\<lambda>a hw. setToDefault (f a) hw) xs hw =
   fold (\<lambda>a hw. setToDefault (f a) hw) (filter (\<lambda>a. defaultState (f a) \<noteq> IO_DEFAULT_NONE) xs) hw"
  by (induction xs arbitrary: hw) (simp_all add: setToDefault_none)

text \<open>
  Claim C10. For a pin whose default state is none, \<open>setToDefault\<close> leaves the hardware as
  it is: no call on the primitive pin, every line with its mode and level. So does the
  destructor of such a pin, and \<open>deactivateAll\<close> does just what it would do with the pins
  of default none left out; when every living pin has the default none, it leaves the
  hardware as it is.
\<close>

theorem no_default_no_operation:
  "(defaultState p = IO_DEFAULT_NONE \<longrightarrow> setToDefault p hw = hw)
   \<and> (defaultState (objs s this) = IO_DEFAULT_NONE \<longrightarrow>
        hardware (IoPin_destroy this s) = hardware s)
   \<and> ((\<forall>a. a |\<in>| livingPins s \<longrightarrow> defaultState (objs s a) = IO_DEFAULT_NONE) \<longrightarrow>
        hardware (deactivateAll s) = hardware s)
   \<and> hardware (deactivateAll s) =
        fold (\<lambda>a hw. setToDefault (objs s a) hw)
          (filter (\<lambda>a. defaultState (objs s a) \<noteq> IO_DEFAULT_NONE)
             (sorted_list_of_fset (livingPins s)))
          (hardware s)"
proof -
  have 1: "defaultState p = IO_DEFAULT_NONE \<longrightarrow> setToDefault p hw = hw"
    by (simp add: setToDefault_none)
  have 2: "defaultState (objs s this) = IO_DEFAULT_NONE \<longrightarrow>
        hardware (IoPin_destroy this s) = hardware s"
    by (simp add: IoPin_destroy_def Let_def setToDefault_none)
  have 4: "hardware (deactivateAll s) =
        fold (\<lambda>a hw. setToDefault (objs s a) hw)
          (filter (\<lambda>a. defaultState (objs s a) \<noteq> IO_DEFAULT_NONE)
             (sorted_list_of_fset (livingPins s)))
          (hardware s)"
    by (simp add: deactivateAll_def fold_setToDefault_filter [symmetric])
  have 3: "(\<forall>a. a |\<in>| livingPins s \<longrightarrow> defaultState (objs s a) = IO_DEFAULT_NONE) \<longrightarrow>
        hardware (deactivateAll s) = hardware s"
  proof
    assume a: "\<forall>a. a |\<in>| livingPins s \<longrightarrow> defaultState (objs s a) = IO_DEFAULT_NONE"
    then have "filter (\<lambda>a. defaultState (objs s a) \<noteq> IO_DEFAULT_NONE)
             (sorted_list_of_fset (livingPins s)) = []"
      by (simp add: filter_empty_conv)
    then show "hardware (deactivateAll s) = hardware s" using 4 by simp
  qed
  show ?thesis using 1 2 3 4 by blast
qed

theorem no_default_no_operation_witness:
  "defaultState (examplePins 3) = IO_DEFAULT_NONE
   \<and> \<not> isNull (examplePins 3)
   \<and> setToDefault (examplePins 3) idleHardware = idleHardware
   \<and> hardware (IoPin_destroy 3 exampleProgram) = idleHardware
   \<and> livingPins (exampleProgram\<lparr>livingPins := {|3|}\<rparr>) = {|3|}
   \<and> hardware (deactivateAll (exampleProgram\<lparr>livingPins := {|3|}\<rparr>)) = idleHardware"
proof -
  have h: "defaultState (examplePins 3) = IO_DEFAULT_NONE" "\<not> isNull (examplePins 3)"
    by (simp_all add: examplePins_def IoPin_new_def isNull_def prim_isNull_def)
  have m: "objs exampleProgram = examplePins" "hardware exampleProgram = idleHardware"
    by (simp_all add: exampleProgram_def)
  have a: "\<forall>a. a |\<in>| livingPins (exampleProgram\<lparr>livingPins := {|3|}\<rparr>) \<longrightarrow>
         defaultState (objs (exampleProgram\<lparr>livingPins := {|3|}\<rparr>) a) = IO_DEFAULT_NONE"
    using h m by simp
  show ?thesis
    using no_default_no_operation [of "examplePins 3" idleHardware exampleProgram 3]
      no_default_no_operation [of "examplePins 3" idleHardware
        "exampleProgram\<lparr>livingPins := {|3|}\<rparr>" 3]
      h m a
    by simp
qed

section \<open>Properties of the DMA proof of concept\<close>

lemmas dma_consts = DMA_CS_RESET_def DMA_CS_ACTIVE_def DMA_DEBUG_READ_ERROR_def
  DMA_DEBUG_FIFO_ERROR_def DMA_DEBUG_READ_LAST_NOT_SET_ERROR_def DMA_CB_TI_DEST_INC_def
  DMA_CB_TI_DEST_DREQ_def DMA_CB_TI_SRC_INC_def DMA_CB_TI_SRC_DREQ_def
  DMA_CB_TI_PERMAP_NONE_def DMA_CB_TI_PERMAP_DSI_def DMA_CB_TI_PERMAP_PWM_def
  DMA_CB_TI_NO_WIDE_BURSTS_def GPIO_BASE_def GPIO_BASE_BUS_def DMA_BASE_def TIMER_BASE_def
  PAGE_SIZE_def GPFSEL0_def GPSET0_def GPCLR0_def DMACH3_def DMAENABLE_def
  hdr_CS_def hdr_CONBLK_AD_def hdr_DEBUG_def

text \<open>
  Claim C9. After \<open>writeBitmasked(dest, mask, value)\<close> the word at \<open>dest\<close> is
  \<open>(cur & ~mask) | (value & mask)\<close> for the word \<open>cur\<close> it held before: a bit where the mask
  is 0 is as it was, a bit where the mask is 1 is the bit of the value. No other word
  changes, and the same call again changes nothing.
\<close>

theorem writeBitmasked_masks:
  "writeBitmasked mem dest m v dest = (mem dest AND NOT m) OR (v AND m)
   \<and> (\<forall>n. (\<not> bit m n \<longrightarrow> bit (writeBitmasked mem dest m v dest) n = bit (mem dest) n)
         \<and> (bit m n \<longrightarrow> bit (writeBitmasked mem dest m v dest) n = bit v n))
   \<and> (\<forall>a. a \<noteq> dest \<longrightarrow> writeBitmasked mem dest m v a = mem a)
   \<and> writeBitmasked (writeBitmasked mem dest m v) dest m v = writeBitmasked mem dest m v"
proof -
  have 1: "writeBitmasked mem dest m v dest = (mem dest AND NOT m) OR (v AND m)"
    by (simp add: writeBitmasked_def Let_def)
  have 2: "\<forall>n. (\<not> bit m n \<longrightarrow> bit (writeBitmasked mem dest m v dest) n = bit (mem dest) n)
         \<and> (bit m n \<longrightarrow> bit (writeBitmasked mem dest m v dest) n = bit v n)"
    by (auto simp add: 1 bit_or_iff bit_and_iff bit_not_iff dest: bit_imp_le_length)
  have 3: "\<forall>a. a \<noteq> dest \<longrightarrow> writeBitmasked mem dest m v a = mem a"
    by (simp add: writeBitmasked_def Let_def)
  have "((mem dest AND NOT m) OR (v AND m)) AND NOT m OR (v AND m) = (mem dest AND NOT m) OR (v AND m)"
    by (rule bit_eqI) (auto simp add: bit_or_iff bit_and_iff bit_not_iff)
  then have 4: "writeBitmasked (writeBitmasked mem dest m v) dest m v = writeBitmasked mem dest m v"
    by (simp add: writeBitmasked_def Let_def)
  show ?thesis using 1 2 3 4 by blast
qed

theorem writeBitmasked_masks_witness:
  "bit (0x06 :: uint32_t) 1 \<and> \<not> bit (0x06 :: uint32_t) 3 \<and> (5::nat) \<noteq> 7
   \<and> writeBitmasked (\<lambda>a::nat. 0xCC) 7 0x06 0xF3 7 = 0xCA
   \<and> bit (writeBitmasked (\<lambda>a::nat. 0xCC) 7 0x06 0xF3 7) 1
   \<and> bit (writeBitmasked (\<lambda>a::nat. 0xCC) 7 0x06 0xF3 7) 3
   \<and> writeBitmasked (\<lambda>a::nat. 0xCC) 7 0x06 0xF3 5 = 0xCC"
proof -
  have b: "bit (0x06 :: uint32_t) 1" "\<not> bit (0x06 :: uint32_t) 3"
    "bit (0xF3 :: uint32_t) 1" "bit (0xCC :: uint32_t) 3"
    by simp_all
  have c: "(0xCC AND NOT 0x06) OR (0xF3 AND 0x06) = (0xCA :: uint32_t)"
    by simp
  note t = writeBitmasked_masks [of "\<lambda>a::nat. 0xCC" 7 "0x06" "0xF3"]
  have "bit (writeBitmasked (\<lambda>a::nat. 0xCC) 7 0x06 0xF3 7) 1 = bit (0xF3 :: uint32_t) 1"
    using t b(1) by blast
  moreover have "bit (writeBitmasked (\<lambda>a::nat. 0xCC) 7 0x06 0xF3 7) 3 = bit (0xCC :: uint32_t) 3"
    using t b(2) by blast
  moreover have "writeBitmasked (\<lambda>a::nat. 0xCC) 7 0x06 0xF3 5 = 0xCC"
    using t by simp
  moreover have "writeBitmasked (\<lambda>a::nat. 0xCC) 7 0x06 0xF3 7 = 0xCA"
    using t c by simp
  ultimately show ?thesis using b by simp
qed

lemma main_setup_no_dev_mem:
  "open_dev_mem env < 0 \<Longrightarrow> main_setup env = Inl (Exited 1)"
  by (simp add: main_setup_def)

lemma main_setup_no_mmap:
  assumes "0 \<le> open_dev_mem env"
    and "mmap_dev_mem env GPIO_BASE = None \<or> mmap_dev_mem env DMA_BASE = None
       \<or> mmap_dev_mem env TIMER_BASE = None"
  shows "main_setup env = Inl (Exited 1)"
  using assms by (auto simp add: main_setup_def mapPeripheral_def split: option.splits)

lemma main_setup_Inr:
  assumes "0 \<le> open_dev_mem env"
    and "mmap_dev_mem env GPIO_BASE = Some g" and "mmap_dev_mem env DMA_BASE = Some d"
    and "mmap_dev_mem env TIMER_BASE = Some t"
    and "valloc_page env 0 = Some v0" and "valloc_page env 1 = Some v1"
    and "dma_mapped env DMAENABLE"
  shows "\<exists>m. main_setup env = Inr m"
  using assms by (simp add: main_setup_def mapPeripheral_def makeVirtPhysPage_def Let_def)

lemma main_setup_cb1:
  assumes "main_setup env = Inr m"
  shows "cb1 m = \<lparr>TI = DMA_CB_TI_SRC_INC OR DMA_CB_TI_DEST_INC OR DMA_CB_TI_NO_WIDE_BURSTS,
                  SOURCE_AD = snd (projr (makeVirtPhysPage env 0)),
                  DEST_AD = GPIO_BASE_BUS + of_nat GPSET0,
                  TXFR_LEN = 24, STRIDE = 0, NEXTCONBK = 0\<rparr>
       \<and> srcArray m = [push_bit 4 1, 0, 0, push_bit 4 1, 0, 0]
       \<and> dma m (DMACH3 + hdr_CONBLK_AD) = snd (projr (makeVirtPhysPage env 1))"
  using assms
  by (auto simp add: main_setup_def Let_def DMACH3_def hdr_CS_def hdr_CONBLK_AD_def
      split: if_splits sum.splits prod.splits)

lemma wait_dma_ends:
  "cs (i + d) AND DMA_CS_ACTIVE = 0 \<Longrightarrow> \<exists>j. wait_dma cs i = Some j"
proof (induction d arbitrary: i)
  case 0
  then show ?case by (subst wait_dma.simps) simp
next
  case (Suc d)
  then have "\<exists>j. wait_dma cs (Suc i) = Some j" by (intro Suc.IH) simp
  then show ?case by (subst wait_dma.simps) simp
qed

lemma wait_dma_Some:
  assumes "wait_dma cs i = Some j"
  shows "cs j AND DMA_CS_ACTIVE = 0 \<and> i \<le> j"
  by (rule wait_dma.raw_induct
        [where P = "\<lambda>cs i j. cs j AND DMA_CS_ACTIVE = 0 \<and> i \<le> j", OF _ assms])
     (auto split: if_splits dest: Suc_leD)

lemma wait_dma_never:
  assumes "\<forall>k. cs k AND DMA_CS_ACTIVE \<noteq> 0"
  shows "wait_dma cs i = None"
proof (cases "wait_dma cs i")
  case None
  then show ?thesis .
next
  case (Some j)
  then show ?thesis using wait_dma_Some [of cs i j] assms by simp
qed

lemma main_clean:
  assumes "main_setup env = Inr m" and "cs_read env k AND DMA_CS_ACTIVE = 0"
  shows "main env = Some (Exited 0)"
proof -
  have "\<exists>j. wait_dma (cs_read env) 0 = Some j"
    using assms(2) wait_dma_ends [of "cs_read env" 0 k] by simp
  then show ?thesis using assms(1) by (auto simp add: main_def)
qed

text \<open>
  Claim C8, where the code departs from it. The process is to exit with a code other than
  0 when the pagemap cannot be read. Where \<open>/dev/mem\<close> cannot be opened or a peripheral
  page cannot be mapped, \<open>main\<close> does exit with code 1; where the reads of the pagemap fail,
  \<open>makeVirtPhysPage\<close> goes on with what \<open>pageInfo\<close> held, the control block and the channel
  are given addresses made from that value, and \<open>main\<close> exits with code 0.
\<close>

theorem pagemap_failure_exit_code:
  "pagemap_read noPagemapEnv 0 = None
   \<and> pagemap_read noPagemapEnv 1 = None
   \<and> main noPagemapEnv = Some (Exited 0)
   \<and> SOURCE_AD (cb1 (projr (main_setup noPagemapEnv))) = 0xDBEEF000
   \<and> dma (projr (main_setup noPagemapEnv)) (DMACH3 + hdr_CONBLK_AD) = 0xDBEEF000
   \<and> main noDevMemEnv = Some (Exited 1)
   \<and> main noMmapEnv = Some (Exited 1)"
proof -
  have r: "pagemap_read noPagemapEnv 0 = None" "pagemap_read noPagemapEnv 1 = None"
    by (simp_all add: noPagemapEnv_def)
  have "\<exists>m. main_setup noPagemapEnv = Inr m"
    by (rule main_setup_Inr [where g = "0xB6F00000" and d = "0xB6F07000" and t = "0xB6F03000"
          and ?v0.0 = "0x00020000" and ?v1.0 = "0x00021000"])
       (simp_all add: noPagemapEnv_def goodEnv_def dma_consts)
  then obtain m where m: "main_setup noPagemapEnv = Inr m" by blast
  have "cs_read noPagemapEnv 2 AND DMA_CS_ACTIVE = 0"
    by (simp add: noPagemapEnv_def goodEnv_def DMA_CS_ACTIVE_def)
  with m have e: "main noPagemapEnv = Some (Exited 0)" by (rule main_clean)
  have pg: "makeVirtPhysPage noPagemapEnv 0 = Inr (0x00020000, 0xDBEEF000)"
    "makeVirtPhysPage noPagemapEnv 1 = Inr (0x00021000, 0xDBEEF000)"
    by (simp_all add: makeVirtPhysPage_def noPagemapEnv_def goodEnv_def PAGE_SIZE_def Let_def)
  have a: "SOURCE_AD (cb1 (projr (main_setup noPagemapEnv))) = 0xDBEEF000"
    "dma (projr (main_setup noPagemapEnv)) (DMACH3 + hdr_CONBLK_AD) = 0xDBEEF000"
    using main_setup_cb1 [OF m] m pg by simp_all
  have "open_dev_mem noDevMemEnv < 0" by (simp add: noDevMemEnv_def)
  then have d: "main noDevMemEnv = Some (Exited 1)"
    by (simp add: main_def main_setup_no_dev_mem)
  have "0 \<le> open_dev_mem noMmapEnv" "mmap_dev_mem noMmapEnv DMA_BASE = None"
    by (simp_all add: noMmapEnv_def goodEnv_def)
  then have n: "main noMmapEnv = Some (Exited 1)"
    by (simp add: main_def main_setup_no_mmap)
  show ?thesis using r e a d n by simp
qed






section \<open>Properties of the Kossel machine\<close>

lemmas kossel_consts = R1000_def L1000_def H1000_def BUILDRAD1000_def STEPS_M_def
  STEPS_M_EXT_def MAX_MOVE_RATE_def HOME_RATE_def MAX_EXT_RATE_def

text \<open>
  Claim C7. \<open>clampMoveRate(f)\<close> is the smaller of \<open>f\<close> and the maximal move rate of 50 mm/s:
  it never exceeds 50 and is \<open>f\<close> whenever \<open>f\<close> is at most 50. \<open>clampHomeRate(f)\<close> is the home
  rate of 10 mm/s whatever \<open>f\<close> is.
\<close>

theorem clamp_rates:
  "clampMoveRate f = min f 50
   \<and> clampMoveRate f \<le> 50
   \<and> (f \<le> 50 \<longrightarrow> clampMoveRate f = f)
   \<and> clampHomeRate f = 10"
  by (simp add: clampMoveRate_def clampHomeRate_def std_min_def defaultMoveRate_def
      MAX_MOVE_RATE_def HOME_RATE_def min_def)

theorem clamp_rates_witness:
  "(30::real) \<le> 50 \<and> clampMoveRate 30 = 30 \<and> clampMoveRate 80 = 50 \<and> clampHomeRate 80 = 10"
  using clamp_rates [of 30] clamp_rates [of 80] by simp

lemma bedLevel_identity:
  "bedLevel (KosselPi Identity3Static) v = v"
  by (cases v) (simp add: bedLevel_def KosselPi_def Identity3Static_def)

lemma radicand_home:
  "radicand (KosselPi Identity3Static) i (0, 0, 0) = (of_int L1000)\<^sup>2 - (of_int R1000)\<^sup>2"
proof -
  have "(of_int R1000 * cos (towerAngle i))\<^sup>2 + (of_int R1000 * sin (towerAngle i))\<^sup>2
      = (of_int R1000 :: real)\<^sup>2"
    by (simp add: power_mult_distrib flip: distrib_left)
  then show ?thesis
    by (simp add: radicand_def bedLevel_identity) (simp add: KosselPi_def)
qed

lemma home_radicand_value:
  "(of_int L1000 :: real)\<^sup>2 - (of_int R1000)\<^sup>2 = 36520000000"
  by (simp add: kossel_consts)

lemma home_height_bounds:
  "191102 < sqrt (36520000000 :: real)" "sqrt (36520000000 :: real) < 191103"
proof -
  show "191102 < sqrt (36520000000 :: real)"
    by (rule real_less_rsqrt) simp
  show "sqrt (36520000000 :: real) < 191103"
    by (rule real_less_lsqrt) simp_all
qed

lemma home_height:
  "carriageHeight (KosselPi Identity3Static) i (0, 0, 0) = Inr (sqrt 36520000000)"
  by (simp add: carriageHeight_def radicand_home home_radicand_value bedLevel_identity)

lemma home_steps:
  "carriageSteps (KosselPi Identity3Static) i (0, 0, 0) = Inr 4789"
proof -
  have "round (sqrt 36520000000 / 1000000 * 25060 :: real) = 4789"
  proof (rule round_unique)
    show "sqrt 36520000000 / 1000000 * 25060 - 1 / 2 < real_of_int 4789"
      using home_height_bounds(2) by simp
    show "real_of_int 4789 \<le> sqrt 36520000000 / 1000000 * 25060 + 1 / 2"
      using home_height_bounds(1) by simp
  qed
  then show ?thesis
    by (simp add: carriageSteps_def home_height) (simp add: KosselPi_def kossel_consts)
qed

text \<open>
  Claim C6, amended. The reference delta, with \<open>steps_per_m = 6265 \<cdot> 4 = 25060\<close>, satisfies
  the invariants of the geometry, and with the identity bed level the carriage of every
  tower stands at \<open>\<surd>(L\<^sup>2 - R\<^sup>2)\<close> for the position \<open>(0, 0, 0)\<close>: between 191102 and 191103
  micrometers, which is 4789 steps, as is \<open>round(0.191102 \<cdot> 25060)\<close> (and
  \<open>round(0.191094 \<cdot> 25060)\<close>).
\<close>

theorem reference_delta_home:
  "STEPS_M = 25060
   \<and> config_valid (KosselPi bl)
   \<and> carriageHeight (KosselPi Identity3Static) i (0, 0, 0)
        = Inr (sqrt ((of_int L1000)\<^sup>2 - (of_int R1000)\<^sup>2))
   \<and> 191102 < projr (carriageHeight (KosselPi Identity3Static) i (0, 0, 0))
   \<and> projr (carriageHeight (KosselPi Identity3Static) i (0, 0, 0)) < 191103
   \<and> carriageSteps (KosselPi Identity3Static) i (0, 0, 0) = Inr 4789
   \<and> round (0.191102 * real_of_int STEPS_M) = 4789
   \<and> round (0.191094 * real_of_int STEPS_M) = 4789"
proof -
  have 1: "STEPS_M = 25060" by (simp add: STEPS_M_def)
  have 2: "config_valid (KosselPi bl)"
    by (simp add: config_valid_def KosselPi_def kossel_consts)
  have 3: "carriageHeight (KosselPi Identity3Static) i (0, 0, 0)
        = Inr (sqrt ((of_int L1000)\<^sup>2 - (of_int R1000)\<^sup>2))"
    by (simp only: home_height home_radicand_value)
  have 4: "191102 < projr (carriageHeight (KosselPi Identity3Static) i (0, 0, 0))"
    "projr (carriageHeight (KosselPi Identity3Static) i (0, 0, 0)) < 191103"
    using home_height_bounds by (simp_all add: home_height)
  have 5: "round (0.191102 * real_of_int STEPS_M) = 4789"
    by (rule round_unique) (simp_all add: STEPS_M_def)
  have 6: "round (0.191094 * real_of_int STEPS_M) = 4789"
    by (rule round_unique) (simp_all add: STEPS_M_def)
  show ?thesis using 1 2 3 4 5 6 home_steps by blast
qed

text \<open>
  Claim C6 as stated fails in the height: \<open>\<surd>(L\<^sup>2 - R\<^sup>2)\<close> is more than 8 micrometers away
  from 191094.
\<close>

theorem home_height_counterexample:
  "\<not> \<bar>projr (carriageHeight (KosselPi Identity3Static) TowerA (0, 0, 0)) - 191094\<bar> \<le> 8"
  using home_height_bounds(1) by (simp add: home_height)

end
